theory Spec2Isabelle
  imports Main "HOL-Library.Sublist"
begin

section \<open>Python primitives used by \<open>pilot/helpers/cli.py\<close>\<close>

text \<open>
  Python's slice \<open>s[k:]\<close> for an integer \<open>k\<close>: a negative \<open>k\<close> counts from the end
  (and stops at the start of the string), a non-negative \<open>k\<close> counts from the start
  (and stops at the end). No index raises.
\<close>

definition py_slice_from :: "int \<Rightarrow> 'a list \<Rightarrow> 'a list" where
  "py_slice_from k s =
     (if k < 0 then drop (nat (max (int (length s) + k) 0)) s
      else drop (nat (min k (int (length s)))) s)"

text \<open>
  Python's \<open>a in b\<close> on two strings: \<open>a\<close> occurs in \<open>b\<close> as a contiguous run of
  characters. The empty string occurs in every string.
\<close>

fun py_in :: "string \<Rightarrow> string \<Rightarrow> bool" where
  "py_in a [] = (a = [])"
| "py_in a (c # cs) = (prefix a (c # cs) \<or> py_in a cs)"

section \<open>Configuration constants\<close>

text \<open>
  \<open>const/code_execution.py\<close> is imported by \<open>cli.py\<close> but its values are not part of
  the sources at hand, so the three constants the executor reads are parameters of
  the model.
\<close>

record config =
  MIN_COMMAND_RUN_TIME :: int
  MAX_COMMAND_RUN_TIME :: int
  MAX_COMMAND_OUTPUT_LENGTH :: int

section \<open>Timeout normalisation (\<open>execute_command\<close>, lines 96--99)\<close>

text \<open>
  \<^verbatim>\<open>
  if timeout is not None:
      if timeout < 1000:
          timeout *= 1000
      timeout = min(max(timeout, MIN_COMMAND_RUN_TIME), MAX_COMMAND_RUN_TIME)
  \<close>
\<close>

definition normalise_timeout :: "config \<Rightarrow> int option \<Rightarrow> int option" where
  "normalise_timeout C timeout =
     (case timeout of
        None \<Rightarrow> None
      | Some t \<Rightarrow>
          (let t1 = (if t < 1000 then t * 1000 else t)
           in Some (min (max t1 (MIN_COMMAND_RUN_TIME C)) (MAX_COMMAND_RUN_TIME C))))"

section \<open>The Stream Drainer (\<open>enqueue_output\<close>, lines 17--24)\<close>

text \<open>
  \<^verbatim>\<open>
  interrupted = False

  def enqueue_output(out, q):
      for line in iter(out.readline, ''):
          if interrupted:
              break
          q.put(line)
      out.close()
  \<close>
  The stream \<open>out\<close> is the list of lines that successive \<open>readline\<close> calls return;
  the end of the list is end-of-file, where \<open>readline\<close> returns the empty string, the
  sentinel of \<open>iter\<close>. The first argument is the value of the module-level variable
  \<open>interrupted\<close>, which the function reads before each \<open>put\<close>. The result is the queue.
\<close>

fun enqueue_output :: "bool \<Rightarrow> string list \<Rightarrow> string list \<Rightarrow> string list" where
  "enqueue_output interrupted [] q = q"
| "enqueue_output interrupted (line # out) q =
     (if line = [] then q
      else if interrupted then q
      else enqueue_output interrupted out (q @ [line]))"

section \<open>The world the executor acts on\<close>

datatype py_exception = OSError | CalledProcessError | TimeoutError | KeyboardInterrupt

text \<open>
  A process identifier, as \<open>subprocess.Popen\<close> reports it in \<open>process.pid\<close> and as
  \<open>terminate_process\<close> receives it from \<open>pid_container[0]\<close>: the identifier of a child
  process, an integer above 1 that fits C's \<open>pid_t\<close>. Other integers are no
  identifiers of a child and are outside this type: for \<open>os.killpg\<close>, 0 names the
  caller's own process group, 1 is not a group a child can lead, and an integer that
  does not fit \<open>pid_t\<close> makes the call raise \<open>OverflowError\<close>.
\<close>

typedef child_pid = "{p :: int. 1 < p \<and> p < 2147483648}"
  morphisms pid_number make_pid
  by (rule exI[of _ 2]) simp

record command_run =
  cr_id :: nat
  cli_response :: string

text \<open>The fields of \<open>project\<close> that \<open>execute_command\<close> reads or writes.\<close>

record project =
  command_runs_count :: int
  skip_steps :: bool
  root_path :: string
  checkpoints_last_command_run :: "command_run option"

datatype event = Prompted string | Spawned string string

text \<open>
  \<open>command_runs\<close> is the history store behind \<open>database.database\<close>; \<open>alive\<close> is the
  set of process groups (POSIX) or process trees (Windows) that exist and can be
  killed, named by the identifier of their first process; \<open>interrupted\<close> is the
  module-level variable of line 17; \<open>events\<close> records the prompts shown and the
  commands handed to \<open>subprocess.Popen\<close>, in order. Calls of \<open>print\<close> change none
  of this and are left out.
\<close>

record world =
  proj :: project
  command_runs :: "string \<rightharpoonup> command_run"
  next_run_id :: nat
  windows :: bool
  alive :: "child_pid set"
  interrupted :: bool
  events :: "event list"

text \<open>
  Modelled from the spec: \<open>get_command_run_from_hash_id\<close> and \<open>save_command_run\<close> of
  \<open>database/database.py\<close>, which is not among the sources. The spec's history hook
  is a lookup ``keyed by (project-scope, command-text)'' that yields a prior result
  if one exists, and a store of ``(command-text, resultText)''.
\<close>

definition get_command_run_from_hash_id :: "world \<Rightarrow> string \<Rightarrow> command_run option" where
  "get_command_run_from_hash_id w command = command_runs w command"

definition save_command_run :: "world \<Rightarrow> string \<Rightarrow> string \<Rightarrow> command_run \<times> world" where
  "save_command_run w command response =
     (let cr = \<lparr>cr_id = next_run_id w, cli_response = response\<rparr>
      in (cr, w\<lparr>command_runs := (command_runs w)(command \<mapsto> cr),
                next_run_id := Suc (next_run_id w)\<rparr>))"

section \<open>The Process Supervisor (\<open>run_command\<close>, lines 26--67)\<close>

text \<open>
  \<open>subprocess.Popen\<close> either raises (the first argument is \<open>Inl\<close> of the exception)
  or returns a process whose identifier is the \<open>Inr\<close> value. Both platform branches
  pass the same command and working directory; the POSIX branch adds \<open>os.setsid\<close>, so
  that the new process leads a group of its own. The two drainer threads are started
  on the new process's streams; what they put on the queues is observed by the
  control loop below.
\<close>

definition run_command ::
  "world \<Rightarrow> py_exception + child_pid \<Rightarrow> string \<Rightarrow> string
     \<Rightarrow> py_exception + child_pid \<times> world" where
  "run_command w popen command root =
     (case popen of
        Inl e \<Rightarrow> Inl e
      | Inr pid \<Rightarrow>
          Inr (pid, w\<lparr>alive := insert pid (alive w),
                      events := events w @ [Spawned command root]\<rparr>))"

section \<open>The Terminator (\<open>terminate_process\<close>, lines 69--81)\<close>

text \<open>
  \<open>os.killpg(pid, SIGKILL)\<close> on the identifier of a child process: the group led by
  that process is killed if it exists and the caller may signal it; otherwise the
  call raises \<open>ProcessLookupError\<close> or \<open>PermissionError\<close>, both subclasses of
  \<open>OSError\<close>.
\<close>

definition os_killpg :: "world \<Rightarrow> child_pid \<Rightarrow> py_exception + world" where
  "os_killpg w pid =
     (if pid \<in> alive w then Inr (w\<lparr>alive := alive w - {pid}\<rparr>) else Inl OSError)"

text \<open>
  \<open>subprocess.run(["taskkill", "/F", "/T", "/PID", str(pid)])\<close>: \<open>taskkill\<close> kills
  the process tree if it exists and exits with status 0; when it does not exist,
  \<open>taskkill\<close> exits with status 128. \<open>subprocess.run\<close> returns the exit status; only
  when called with \<open>check=True\<close> does it raise \<open>CalledProcessError\<close> on a non-zero
  status. The first argument is \<open>check\<close>.
\<close>

definition subprocess_run_taskkill ::
  "bool \<Rightarrow> world \<Rightarrow> child_pid \<Rightarrow> py_exception + int \<times> world" where
  "subprocess_run_taskkill check w pid =
     (if pid \<in> alive w then Inr (0, w\<lparr>alive := alive w - {pid}\<rparr>)
      else if check then Inl CalledProcessError
      else Inr (128, w))"

text \<open>
  \<^verbatim>\<open>
  def terminate_process(pid):
      if platform.system() == "Windows":
          try:
              subprocess.run(["taskkill", "/F", "/T", "/PID", str(pid)])
          except subprocess.CalledProcessError:
              pass
      else:
          try:
              os.killpg(pid, signal.SIGKILL)
          except OSError:
              pass
  \<close>
\<close>

text \<open>The source passes no \<open>check\<close> argument, whose default is \<open>False\<close>.\<close>

definition terminate_process :: "world \<Rightarrow> child_pid \<Rightarrow> py_exception + world" where
  "terminate_process w pid =
     (if windows w then
        (case subprocess_run_taskkill False w pid of
           Inl e \<Rightarrow> (if e = CalledProcessError then Inr w else Inl e)
         | Inr (returncode, w') \<Rightarrow> Inr w')
      else
        (case os_killpg w pid of
           Inl e \<Rightarrow> (if e = OSError then Inr w else Inl e)
         | Inr w' \<Rightarrow> Inr w'))"

section \<open>The Execution Controller (\<open>execute_command\<close>, lines 83--202)\<close>

subsection \<open>What the loop observes\<close>

text \<open>
  One \<open>tick\<close> is what one iteration of the \<open>while\<close> loop observes: the clock reading
  \<open>elapsed_time * 1000\<close>, taken as a whole number of milliseconds, whether \<open>process.poll()\<close> is not \<open>None\<close>,
  whether a \<open>KeyboardInterrupt\<close> is delivered in this iteration, and the lines the
  two drainer threads have put on their queues since the previous iteration (for the
  iteration that sees the process exited: up to the end of its \<open>time.sleep(0.1)\<close>).
  A run of the loop is a list of ticks; when the list ends and the loop has not been
  left, the loop is still running.
\<close>

record tick =
  elapsed_ms :: int
  exited :: bool
  keyboard_interrupt :: bool
  new_stdout :: "string list"
  new_stderr :: "string list"

text \<open>The local variables of \<open>execute_command\<close> that the loop reads and writes
  (\<open>output_buf\<close> is the source's \<open>output\<close>).\<close>

record loop_state =
  q :: "string list"
  q_stderr :: "string list"
  output_buf :: string
  stderr_output :: string

subsection \<open>The final drain (lines 149--153)\<close>

text \<open>
  \<^verbatim>\<open>
  while not q.empty():
      output_line = q.get_nowait()
      if output_line not in output:
          output += output_line
  \<close>
\<close>

fun final_drain :: "string list \<Rightarrow> string \<Rightarrow> string" where
  "final_drain [] out = out"
| "final_drain (output_line # rest) out =
     final_drain rest (if \<not> py_in output_line out then out @ output_line else out)"

subsection \<open>One non-blocking read (lines 162--179)\<close>

text \<open>
  \<^verbatim>\<open>
  try:
      line = q.get_nowait()
  except queue.Empty:
      line = None
  if line:
      output += line
  \<close>
  and the same for \<open>q_stderr\<close> and \<open>stderr_output\<close>. An empty string is falsy, as
  \<open>None\<close> is. The result is the queue and the buffer after the read.
\<close>

definition read_one :: "string list \<Rightarrow> string \<Rightarrow> string list \<times> string" where
  "read_one queue buf =
     (case queue of
        [] \<Rightarrow> ([], buf)
      | line # rest \<Rightarrow> (rest, if line \<noteq> [] then buf @ line else buf))"

subsection \<open>The loop (lines 139--179)\<close>

text \<open>
  \<^verbatim>\<open>
  while return_value is None:
      elapsed_time = time.time() - start_time
      if process.poll() is not None:
          time.sleep(0.1)
          (the final drain)
          break
      if timeout is not None and elapsed_time * 1000 > timeout:
          raise TimeoutError("Command exceeded the specified timeout.")
      (one read of q into output)
      (one read of q_stderr into stderr_output)
  \<close>
  The loop is left by \<open>break\<close> (the first component of the result is \<open>None\<close>) or by
  an exception (\<open>Some\<close> of it): \<open>TimeoutError\<close> is raised by line 158, a
  \<open>KeyboardInterrupt\<close> comes from outside. The second component holds the local
  variables at that moment. The interrupt is taken at the head of the iteration.
\<close>

fun control_loop ::
  "int option \<Rightarrow> tick list \<Rightarrow> loop_state \<Rightarrow> (py_exception option \<times> loop_state) option" where
  "control_loop timeout [] s = None"
| "control_loop timeout (t # ts) s =
     (let s1 = s\<lparr>q := q s @ new_stdout t, q_stderr := q_stderr s @ new_stderr t\<rparr>
      in if keyboard_interrupt t then Some (Some KeyboardInterrupt, s1)
         else if exited t then
           Some (None, s1\<lparr>q := [], output_buf := final_drain (q s1) (output_buf s1)\<rparr>)
         else if timeout \<noteq> None \<and> elapsed_ms t > the timeout then
           Some (Some TimeoutError, s1)
         else
           (let (q', output') = read_one (q s1) (output_buf s1);
                (q_stderr', stderr_output') = read_one (q_stderr s1) (stderr_output s1)
            in control_loop timeout ts
                 \<lparr>q = q', q_stderr = q_stderr', output_buf = output',
                  stderr_output = stderr_output'\<rparr>))"

subsection \<open>The exception handler (lines 181--188)\<close>

text \<open>
  \<^verbatim>\<open>
  except (KeyboardInterrupt, TimeoutError) as e:
      interrupted = True
      terminate_process(pid_container[0])
  \<close>
  \<open>execute_command\<close> has no \<open>global interrupted\<close> declaration, so the \<open>interrupted\<close>
  that lines 137 and 182 assign is a local variable of \<open>execute_command\<close>; the
  module-level variable of line 17, field \<open>interrupted\<close> of the world, is another
  variable and is not written. The result is the local variable and the world, or
  the exception that leaves \<open>execute_command\<close>.
\<close>

definition handle_loop_exit ::
  "world \<Rightarrow> child_pid \<Rightarrow> py_exception option \<Rightarrow> py_exception + bool \<times> world" where
  "handle_loop_exit w pid exc =
     (let interrupted_local = False
      in case exc of
           None \<Rightarrow> Inr (interrupted_local, w)
         | Some e \<Rightarrow>
             (if e = KeyboardInterrupt \<or> e = TimeoutError then
                (case terminate_process w pid of
                   Inl e' \<Rightarrow> Inl e'
                 | Inr w' \<Rightarrow> Inr (True, w'))
              else Inl e))"

subsection \<open>Result construction (lines 194--198)\<close>

text \<open>
  \<^verbatim>\<open>
  return_value = ''
  if stderr_output != '':
      return_value = 'stderr:\n```\n' + stderr_output[-MAX_COMMAND_OUTPUT_LENGTH:] + '\n```\n'
  return_value += 'stdout:\n```\n' + output[-MAX_COMMAND_OUTPUT_LENGTH:] + '\n```'
  \<close>
\<close>

definition build_return_value :: "config \<Rightarrow> string \<Rightarrow> string \<Rightarrow> string" where
  "build_return_value C stderr_out out =
     (let return_value =
            (if stderr_out \<noteq> [] then
               ''stderr:\<newline>```\<newline>''
                 @ py_slice_from (- MAX_COMMAND_OUTPUT_LENGTH C) stderr_out
                 @ ''\<newline>```\<newline>''
             else [])
      in return_value @ ''stdout:\<newline>```\<newline>''
           @ py_slice_from (- MAX_COMMAND_OUTPUT_LENGTH C) out @ ''\<newline>```'')"

subsection \<open>The shell wrapper (lines 116--117)\<close>

text \<open>
  \<^verbatim>\<open>
  if "cd " in command or "source " in command:
      command = f"bash -c '{command}'"
  \<close>
\<close>

definition wrap_command :: "string \<Rightarrow> string" where
  "wrap_command command =
     (if py_in ''cd '' command \<or> py_in ''source '' command
      then ''bash -c '' @ [CHR 0x27] @ command @ [CHR 0x27]
      else command)"

subsection \<open>\<open>execute_command\<close>\<close>

text \<open>
  Modelled from the spec: \<open>styled_text\<close> of \<open>utils/questionary.py\<close>, which is not
  among the sources. The spec's confirmation hook is ``a blocking prompt call to an
  external collaborator'': the call shows its question (an event \<open>Prompted\<close>) and
  returns what the user typed, the field \<open>reply\<close> of the environment.

  The environment of one call: the reply at the prompt, what \<open>subprocess.Popen\<close>
  does, and what the loop observes.
\<close>

record env =
  reply :: string
  popen :: "py_exception + child_pid"
  ticks :: "tick list"

text \<open>
  The result is \<open>None\<close> while the loop is still running at the end of the observed
  ticks; otherwise the exception that leaves \<open>execute_command\<close> or the string it
  returns, with the world it leaves behind. The source's \<open>return_value\<close> is \<open>None\<close>
  from line 128 to line 194 (nothing in the loop assigns it), so the test of line 194
  holds and the result is always built by lines 195--198. The local \<open>answer\<close> holds
  the reply and is not read again.
\<close>

definition execute_command ::
  "config \<Rightarrow> env \<Rightarrow> world \<Rightarrow> string \<Rightarrow> int option \<Rightarrow> bool
     \<Rightarrow> ((py_exception + string) \<times> world) option" where
  "execute_command C E w0 command0 timeout0 force =
     (let timeout = normalise_timeout C timeout0;
          (answer, w1) =
            (if \<not> force
             then (Some (reply E),
                   w0\<lparr>events := events w0 @ [Prompted ''If yes, just press ENTER'']\<rparr>)
             else (None, w0));
          command = wrap_command command0;
          w2 = w1\<lparr>proj := (proj w1)\<lparr>command_runs_count := command_runs_count (proj w1) + 1\<rparr>\<rparr>;
          command_run = get_command_run_from_hash_id w2 command
      in if command_run \<noteq> None \<and> skip_steps (proj w2) then
           Some (Inr (cli_response (the command_run)),
                 w2\<lparr>proj := (proj w2)\<lparr>checkpoints_last_command_run := command_run\<rparr>\<rparr>)
         else
           (case run_command w2 (popen E) command (root_path (proj w2)) of
              Inl e \<Rightarrow> Some (Inl e, w2)
            | Inr (pid, w3) \<Rightarrow>
                (case control_loop timeout (ticks E)
                        \<lparr>q = [], q_stderr = [], output_buf = [], stderr_output = []\<rparr> of
                   None \<Rightarrow> None
                 | Some (exc, s) \<Rightarrow>
                     (case handle_loop_exit w3 pid exc of
                        Inl e \<Rightarrow> Some (Inl e, w3)
                      | Inr (interrupted_local, w4) \<Rightarrow>
                          (let return_value =
                                 build_return_value C (stderr_output s) (output_buf s);
                               (command_run', w5) = save_command_run w4 command return_value
                           in Some (Inr return_value, w5))))))"

section \<open>Vocabulary for stating properties\<close>

text \<open>
  A tick makes the loop stop when it delivers a keyboard interrupt, shows the process
  exited, or shows the timeout exceeded; \<open>exit_kind\<close> is how the loop is left on such
  a tick (the order of the source's checks), and \<open>finish\<close> is the buffer the loop
  then leaves: after a \<open>break\<close> the final drain has run, after an exception it has not.
\<close>

definition leaves :: "int option \<Rightarrow> tick \<Rightarrow> bool" where
  "leaves timeout t \<longleftrightarrow>
     keyboard_interrupt t \<or> exited t \<or> (timeout \<noteq> None \<and> elapsed_ms t > the timeout)"

definition exit_kind :: "tick \<Rightarrow> py_exception option" where
  "exit_kind t =
     (if keyboard_interrupt t then Some KeyboardInterrupt
      else if exited t then None else Some TimeoutError)"

definition finish :: "py_exception option \<Rightarrow> string list \<Rightarrow> string \<Rightarrow> string" where
  "finish exc rest buf = (if exc = None then final_drain rest buf else buf)"



text \<open>
  \<open>replays\<close> is the test of line 122, on the world before the call: the history
  store holds a run under the command text as it would be spawned, and the project
  is set to reuse history.
\<close>

definition replays :: "world \<Rightarrow> string \<Rightarrow> bool" where
  "replays w command \<longleftrightarrow>
     command_runs w (wrap_command command) \<noteq> None \<and> skip_steps (proj w)"

text \<open>The prompts shown and the commands spawned, read off the event log.\<close>

definition prompts :: "event list \<Rightarrow> string list" where
  "prompts evs = concat (map (\<lambda>ev. case ev of Prompted p \<Rightarrow> [p] | Spawned c r \<Rightarrow> []) evs)"

definition spawned :: "event list \<Rightarrow> string list" where
  "spawned evs = concat (map (\<lambda>ev. case ev of Prompted p \<Rightarrow> [] | Spawned c r \<Rightarrow> [c]) evs)"

abbreviation (input) init_loop :: loop_state where
  "init_loop \<equiv> \<lparr>q = [], q_stderr = [], output_buf = [], stderr_output = []\<rparr>"

section \<open>Example inputs\<close>

text \<open>
  A configuration, a POSIX world with an empty history store and no process, two
  process identifiers, and four environments: \<open>echo hello\<close> printing its line and
  exiting, a process that outlives its timeout after one line, a spawn that fails,
  and a world whose history store already holds a run of \<open>echo hello\<close>.
\<close>

definition ex_config :: config where
  "ex_config = \<lparr>MIN_COMMAND_RUN_TIME = 2000, MAX_COMMAND_RUN_TIME = 60000,
                 MAX_COMMAND_OUTPUT_LENGTH = 2000\<rparr>"

definition ex_world :: world where
  "ex_world = \<lparr>proj = \<lparr>command_runs_count = 0, skip_steps = False, root_path = ''/tmp/app'',
                       checkpoints_last_command_run = None\<rparr>,
               command_runs = Map.empty, next_run_id = 0, windows = False, alive = {},
               interrupted = False, events = []\<rparr>"

definition ex_tick :: "int \<Rightarrow> bool \<Rightarrow> string list \<Rightarrow> string list \<Rightarrow> tick" where
  "ex_tick ms ex outs errs =
     \<lparr>elapsed_ms = ms, exited = ex, keyboard_interrupt = False,
      new_stdout = outs, new_stderr = errs\<rparr>"

definition ex_pid :: child_pid where
  "ex_pid = make_pid 4242"

definition other_pid :: child_pid where
  "other_pid = make_pid 77"

definition ex_env_echo :: env where
  "ex_env_echo = \<lparr>reply = [], popen = Inr ex_pid,
                  ticks = [ex_tick 5 False [''hello\<newline>''] [], ex_tick 12 True [] []]\<rparr>"

definition ex_env_timeout :: env where
  "ex_env_timeout = \<lparr>reply = ''no'', popen = Inr ex_pid,
                     ticks = [ex_tick 1000 False [''partial\<newline>''] [], ex_tick 2001 False [] []]\<rparr>"

definition ex_env_nospawn :: env where
  "ex_env_nospawn = \<lparr>reply = [], popen = Inl OSError, ticks = []\<rparr>"

definition ex_world_hist :: world where
  "ex_world_hist =
     ex_world\<lparr>proj := (proj ex_world)\<lparr>skip_steps := True\<rparr>,
              command_runs := [''echo hello'' \<mapsto> \<lparr>cr_id = 3, cli_response = ''old''\<rparr>]\<rparr>"

lemmas ex_defs = ex_config_def ex_world_def ex_tick_def ex_env_echo_def ex_env_timeout_def
  ex_env_nospawn_def

lemmas exec_defs = execute_command_def normalise_timeout_def wrap_command_def
  get_command_run_from_hash_id_def run_command_def read_one_def handle_loop_exit_def
  terminate_process_def os_killpg_def subprocess_run_taskkill_def build_return_value_def py_slice_from_def
  save_command_run_def Let_def

section \<open>Python primitives\<close>

lemma pid_number_bounds: "1 < pid_number pid \<and> pid_number pid < 2147483648"
  using pid_number[of pid] by simp

lemma ex_pid_number: "pid_number ex_pid = 4242" "pid_number other_pid = 77"
  by (simp_all add: ex_pid_def other_pid_def make_pid_inverse)

lemma ex_pid_distinct: "ex_pid \<noteq> other_pid" "other_pid \<noteq> ex_pid"
  by (simp_all add: ex_pid_def other_pid_def make_pid_inject)

lemma py_in_sublist: "py_in a b \<longleftrightarrow> sublist a b"
  by (induction b) (auto simp: sublist_Cons_right)

lemma py_slice_tail:
  assumes "0 < n"
  shows "py_slice_from (- n) b = drop (length b - nat n) b"
  using assms by (auto simp: py_slice_from_def max_def nat_diff_distrib' intro: arg_cong[where f="\<lambda>k. drop k b"])

text \<open>With a cap of zero the slice \<open>s[-0:]\<close> is the whole string.\<close>

lemma py_slice_zero_keeps_all: "py_slice_from (- 0) b = b"
  by (simp add: py_slice_from_def)

lemma enqueue_output_not_interrupted:
  "enqueue_output False out qu = qu @ takeWhile (\<lambda>line. line \<noteq> []) out"
  by (induction out arbitrary: qu) auto

section \<open>The control loop\<close>

lemma read_one_eq: "read_one queue buf = (drop 1 queue, buf @ concat (take 1 queue))"
  by (cases queue) (auto simp: read_one_def)

lemma control_loop_last:
  assumes "leaves timeout t"
  shows "control_loop timeout (t # post) s =
           Some (exit_kind t,
                 s\<lparr>q := (if exit_kind t = None then [] else q s @ new_stdout t),
                   q_stderr := q_stderr s @ new_stderr t,
                   output_buf := finish (exit_kind t) (q s @ new_stdout t) (output_buf s)\<rparr>)"
  using assms by (auto simp: leaves_def exit_kind_def finish_def Let_def)

lemma control_loop_step:
  assumes "\<not> leaves timeout t"
  shows "control_loop timeout (t # ts) s =
           control_loop timeout ts
             \<lparr>q = drop 1 (q s @ new_stdout t), q_stderr = drop 1 (q_stderr s @ new_stderr t),
              output_buf = output_buf s @ concat (take 1 (q s @ new_stdout t)),
              stderr_output = stderr_output s @ concat (take 1 (q_stderr s @ new_stderr t))\<rparr>"
  using assms by (cases timeout) (auto simp: leaves_def Let_def read_one_eq)

lemma split_head:
  assumes "drop 1 A @ F = c @ r"
  shows "A @ F = (take 1 A @ c) @ r"
proof -
  have "A @ F = (take 1 A @ drop 1 A) @ F" by (simp only: append_take_drop_id)
  also have "\<dots> = take 1 A @ (c @ r)" using assms by (simp only: append_assoc)
  finally show ?thesis by (simp only: append_assoc)
qed

lemma control_loop_leaves:
  assumes "\<forall>t\<in>set pre. \<not> leaves timeout t" and "leaves timeout fin"
  shows "\<exists>consumed rest econsumed erest s'.
           control_loop timeout (pre @ fin # post) s = Some (exit_kind fin, s')
         \<and> q s @ concat (map new_stdout (pre @ [fin])) = consumed @ rest
         \<and> q_stderr s @ concat (map new_stderr (pre @ [fin])) = econsumed @ erest
         \<and> output_buf s' = finish (exit_kind fin) rest (output_buf s @ concat consumed)
         \<and> stderr_output s' = stderr_output s @ concat econsumed"
  using assms
proof (induction pre arbitrary: s)
  case Nil
  let ?s' = "s\<lparr>q := (if exit_kind fin = None then [] else q s @ new_stdout fin),
                 q_stderr := q_stderr s @ new_stderr fin,
                 output_buf := finish (exit_kind fin) (q s @ new_stdout fin) (output_buf s)\<rparr>"
  have "control_loop timeout ([] @ fin # post) s = Some (exit_kind fin, ?s')"
    using control_loop_last[OF Nil(2)] by simp
  moreover have "q s @ concat (map new_stdout ([] @ [fin])) = [] @ (q s @ new_stdout fin)"
    by simp
  moreover have "q_stderr s @ concat (map new_stderr ([] @ [fin])) = [] @ (q_stderr s @ new_stderr fin)"
    by simp
  moreover have "output_buf ?s' = finish (exit_kind fin) (q s @ new_stdout fin) (output_buf s @ concat [])"
    by simp
  moreover have "stderr_output ?s' = stderr_output s @ concat []"
    by simp
  ultimately show ?case by blast
next
  case (Cons t pre)
  let ?qo = "q s @ new_stdout t" and ?qe = "q_stderr s @ new_stderr t"
  let ?s2 = "\<lparr>q = drop 1 ?qo, q_stderr = drop 1 ?qe,
              output_buf = output_buf s @ concat (take 1 ?qo),
              stderr_output = stderr_output s @ concat (take 1 ?qe)\<rparr>"
  let ?Fo = "concat (map new_stdout (pre @ [fin]))" and ?Fe = "concat (map new_stderr (pre @ [fin]))"
  from Cons.prems have nl: "\<not> leaves timeout t" and rest: "\<forall>t\<in>set pre. \<not> leaves timeout t"
    by simp_all
  from Cons.IH[OF rest Cons.prems(2), of ?s2]
  obtain consumed rest econsumed erest s' where
    run: "control_loop timeout (pre @ fin # post) ?s2 = Some (exit_kind fin, s')" and
    so: "drop 1 ?qo @ ?Fo = consumed @ rest" and
    se: "drop 1 ?qe @ ?Fe = econsumed @ erest" and
    bo: "output_buf s' = finish (exit_kind fin) rest ((output_buf s @ concat (take 1 ?qo)) @ concat consumed)" and
    be: "stderr_output s' = (stderr_output s @ concat (take 1 ?qe)) @ concat econsumed"
    by auto
  have "control_loop timeout ((t # pre) @ fin # post) s = Some (exit_kind fin, s')"
    using control_loop_step[OF nl] run by simp
  moreover have "q s @ concat (map new_stdout ((t # pre) @ [fin])) = (take 1 ?qo @ consumed) @ rest"
    using split_head[OF so] by simp
  moreover have "q_stderr s @ concat (map new_stderr ((t # pre) @ [fin])) = (take 1 ?qe @ econsumed) @ erest"
    using split_head[OF se] by simp
  moreover have "output_buf s' = finish (exit_kind fin) rest (output_buf s @ concat (take 1 ?qo @ consumed))"
    using bo by simp
  moreover have "stderr_output s' = stderr_output s @ concat (take 1 ?qe @ econsumed)"
    using be by simp
  ultimately show ?case by blast
qed



lemma control_loop_running:
  assumes "\<forall>t\<in>set ts. \<not> leaves timeout t"
  shows "control_loop timeout ts s = None"
  using assms
proof (induction ts arbitrary: s)
  case Nil
  show ?case by simp
next
  case (Cons t ts)
  then show ?case using control_loop_step[of timeout t ts s] by simp
qed


lemma control_loop_exc:
  "control_loop timeout ts s = Some (exc, s') \<Longrightarrow>
     exc = None \<or> exc = Some KeyboardInterrupt \<or> exc = Some TimeoutError"
proof (induction ts arbitrary: s)
  case Nil
  then show ?case by simp
next
  case (Cons t ts)
  show ?case
  proof (cases "leaves timeout t")
    case True
    from control_loop_last[OF True, of ts s] Cons.prems show ?thesis
      by (auto simp: exit_kind_def split: if_splits)
  next
    case False
    from control_loop_step[OF False, of ts s] Cons.prems Cons.IH show ?thesis by simp
  qed
qed

lemma final_drain_snoc:
  "final_drain (queue @ [line]) out =
     (if py_in line (final_drain queue out) then final_drain queue out
      else final_drain queue out @ line)"
  by (induction queue arbitrary: out) auto

section \<open>The call as a whole\<close>

lemma terminate_process_returns:
  "terminate_process w pid = Inr (w\<lparr>alive := alive w - {pid}\<rparr>)"
  by (cases "pid \<in> alive w") (auto simp: terminate_process_def subprocess_run_taskkill_def os_killpg_def)

lemma handle_loop_exit_eq:
  "handle_loop_exit w pid exc =
     (case exc of None \<Rightarrow> Inr (False, w)
      | Some e \<Rightarrow> if e = KeyboardInterrupt \<or> e = TimeoutError
                  then Inr (True, w\<lparr>alive := alive w - {pid}\<rparr>) else Inl e)"
  by (simp add: handle_loop_exit_def terminate_process_returns split: option.splits)

lemma execute_command_replay:
  assumes "replays w command"
  shows "\<exists>w'. execute_command C E w command timeout force
             = Some (Inr (cli_response (the (command_runs w (wrap_command command)))), w')
           \<and> alive w' = alive w \<and> command_runs w' = command_runs w
           \<and> interrupted w' = interrupted w
           \<and> spawned (events w') = spawned (events w)
           \<and> prompts (events w') = prompts (events w) @ (if force then [] else [''If yes, just press ENTER''])"
  using assms
  by (auto simp: replays_def execute_command_def Let_def get_command_run_from_hash_id_def spawned_def prompts_def)

lemma execute_command_spawn_fails:
  assumes "\<not> replays w command" and "popen E = Inl e"
  shows "\<exists>w'. execute_command C E w command timeout force = Some (Inl e, w')
           \<and> alive w' = alive w \<and> command_runs w' = command_runs w
           \<and> interrupted w' = interrupted w
           \<and> spawned (events w') = spawned (events w)
           \<and> prompts (events w') = prompts (events w) @ (if force then [] else [''If yes, just press ENTER''])"
  using assms
  by (auto simp: replays_def execute_command_def Let_def get_command_run_from_hash_id_def spawned_def prompts_def run_command_def)

lemma execute_command_running:
  assumes "\<not> replays w command" and "popen E = Inr pid"
    and "control_loop (normalise_timeout C timeout) (ticks E) init_loop = None"
  shows "execute_command C E w command timeout force = None"
  using assms
  by (auto simp: replays_def execute_command_def Let_def get_command_run_from_hash_id_def run_command_def)

lemma execute_command_executes:
  assumes "\<not> replays w command" and "popen E = Inr pid"
    and "control_loop (normalise_timeout C timeout) (ticks E) init_loop = Some (exc, s)"
    and "exc = None \<or> exc = Some KeyboardInterrupt \<or> exc = Some TimeoutError"
  shows "\<exists>w'. execute_command C E w command timeout force
             = Some (Inr (build_return_value C (stderr_output s) (output_buf s)), w')
           \<and> alive w' = (if exc = None then insert pid (alive w) else alive w - {pid})
           \<and> command_runs w' = (command_runs w)(wrap_command command \<mapsto>
                \<lparr>cr_id = next_run_id w,
                 cli_response = build_return_value C (stderr_output s) (output_buf s)\<rparr>)
           \<and> interrupted w' = interrupted w
           \<and> skip_steps (proj w') = skip_steps (proj w)
           \<and> spawned (events w') = spawned (events w) @ [wrap_command command]
           \<and> prompts (events w') = prompts (events w) @ (if force then [] else [''If yes, just press ENTER''])"
  using assms
  by (auto simp: replays_def execute_command_def Let_def get_command_run_from_hash_id_def spawned_def prompts_def run_command_def handle_loop_exit_eq save_command_run_def)

lemma build_return_value_eq:
  assumes "0 < MAX_COMMAND_OUTPUT_LENGTH C"
  shows "build_return_value C err out =
           (if err \<noteq> [] then ''stderr:\<newline>```\<newline>''
                @ drop (length err - nat (MAX_COMMAND_OUTPUT_LENGTH C)) err @ ''\<newline>```\<newline>''
            else [])
           @ ''stdout:\<newline>```\<newline>''
           @ drop (length out - nat (MAX_COMMAND_OUTPUT_LENGTH C)) out @ ''\<newline>```''"
  using assms by (simp add: build_return_value_def py_slice_tail)

lemma execute_command_Inr:
  assumes "\<not> replays w command"
    and "execute_command C E w command timeout force = Some (Inr r, w')"
  shows "\<exists>pid exc s. popen E = Inr pid
         \<and> control_loop (normalise_timeout C timeout) (ticks E) init_loop = Some (exc, s)
         \<and> r = build_return_value C (stderr_output s) (output_buf s)"
proof (cases "popen E")
  case (Inl e)
  from execute_command_spawn_fails[OF assms(1) Inl, of C timeout force] assms(2)
  show ?thesis by auto
next
  case (Inr pid)
  show ?thesis
  proof (cases "control_loop (normalise_timeout C timeout) (ticks E) init_loop")
    case None
    from execute_command_running[OF assms(1) Inr None, of force] assms(2)
    show ?thesis by simp
  next
    case (Some a)
    obtain exc s where a: "a = (exc, s)" by (cases a)
    from Some a have run: "control_loop (normalise_timeout C timeout) (ticks E) init_loop = Some (exc, s)"
      by simp
    from execute_command_executes[OF assms(1) Inr run control_loop_exc[OF run], of force] assms(2)
    have "r = build_return_value C (stderr_output s) (output_buf s)" by auto
    with Inr run show ?thesis by blast
  qed
qed

lemma hello_drain:
  assumes "consumed @ rest = [''hello\<newline>'']"
  shows "final_drain rest ([] @ concat consumed) = ''hello\<newline>''"
proof (cases consumed)
  case Nil
  with assms show ?thesis by simp
next
  case (Cons a list)
  with assms show ?thesis by simp
qed

lemma execute_command_cases:
  assumes "execute_command C E w command timeout force = Some (res, w')"
  obtains
    (replay) "replays w command"
      "res = Inr (cli_response (the (command_runs w (wrap_command command))))"
      "alive w' = alive w" "command_runs w' = command_runs w" "interrupted w' = interrupted w"
      "spawned (events w') = spawned (events w)"
      "prompts (events w') = prompts (events w) @ (if force then [] else [''If yes, just press ENTER''])"
  | (nospawn) e where "\<not> replays w command" "popen E = Inl e" "res = Inl e"
      "alive w' = alive w" "command_runs w' = command_runs w" "interrupted w' = interrupted w"
      "spawned (events w') = spawned (events w)"
      "prompts (events w') = prompts (events w) @ (if force then [] else [''If yes, just press ENTER''])"
  | (executed) pid exc s where "\<not> replays w command" "popen E = Inr pid"
      "control_loop (normalise_timeout C timeout) (ticks E) init_loop = Some (exc, s)"
      "res = Inr (build_return_value C (stderr_output s) (output_buf s))"
      "alive w' = (if exc = None then insert pid (alive w) else alive w - {pid})"
      "command_runs w' = (command_runs w)(wrap_command command \<mapsto>
                \<lparr>cr_id = next_run_id w,
                 cli_response = build_return_value C (stderr_output s) (output_buf s)\<rparr>)"
      "interrupted w' = interrupted w"
      "skip_steps (proj w') = skip_steps (proj w)"
      "spawned (events w') = spawned (events w) @ [wrap_command command]"
      "prompts (events w') = prompts (events w) @ (if force then [] else [''If yes, just press ENTER''])"
proof (cases "replays w command")
  case True
  from execute_command_replay[OF True, of C E timeout force] assms replay[OF True]
  show ?thesis by auto
next
  case False
  show ?thesis
  proof (cases "popen E")
    case (Inl e)
    from execute_command_spawn_fails[OF False Inl, of C timeout force] assms nospawn[OF False Inl]
    show ?thesis by auto
  next
    case (Inr pid)
    show ?thesis
    proof (cases "control_loop (normalise_timeout C timeout) (ticks E) init_loop")
      case None
      from execute_command_running[OF False Inr None, of force] assms show ?thesis by simp
    next
      case (Some x)
      obtain exc s where "x = (exc, s)" by (cases x)
      with Some have run: "control_loop (normalise_timeout C timeout) (ticks E) init_loop
          = Some (exc, s)" by simp
      from execute_command_executes[OF False Inr run control_loop_exc[OF run], of force] assms
        executed[OF False Inr run]
      show ?thesis by auto
    qed
  qed
qed

section \<open>Example runs\<close>

lemma echo_run:
  "execute_command ex_config ex_env_echo ex_world ''echo hello'' None True
     = Some (Inr ''stdout:\<newline>```\<newline>hello\<newline>\<newline>```'',
             ex_world\<lparr>proj := (proj ex_world)\<lparr>command_runs_count := 1\<rparr>,
                       command_runs := [''echo hello'' \<mapsto>
                          \<lparr>cr_id = 0, cli_response = ''stdout:\<newline>```\<newline>hello\<newline>\<newline>```''\<rparr>],
                       next_run_id := Suc 0, alive := {ex_pid},
                       events := [Spawned ''echo hello'' ''/tmp/app'']\<rparr>)"
  by (simp add: ex_defs exec_defs)

lemma echo_run_prompted:
  "execute_command ex_config ex_env_echo ex_world ''echo hello'' None False
     = Some (Inr ''stdout:\<newline>```\<newline>hello\<newline>\<newline>```'',
             ex_world\<lparr>proj := (proj ex_world)\<lparr>command_runs_count := 1\<rparr>,
                       command_runs := [''echo hello'' \<mapsto>
                          \<lparr>cr_id = 0, cli_response = ''stdout:\<newline>```\<newline>hello\<newline>\<newline>```''\<rparr>],
                       next_run_id := Suc 0, alive := {ex_pid},
                       events := [Prompted ''If yes, just press ENTER'',
                                  Spawned ''echo hello'' ''/tmp/app'']\<rparr>)"
  by (simp add: ex_defs exec_defs)

lemma cd_run:
  "execute_command ex_config ex_env_echo ex_world ''cd app'' None True
     = Some (Inr ''stdout:\<newline>```\<newline>hello\<newline>\<newline>```'',
             ex_world\<lparr>proj := (proj ex_world)\<lparr>command_runs_count := 1\<rparr>,
                       command_runs := [''bash -c '' @ [CHR 0x27] @ ''cd app'' @ [CHR 0x27] \<mapsto>
                          \<lparr>cr_id = 0, cli_response = ''stdout:\<newline>```\<newline>hello\<newline>\<newline>```''\<rparr>],
                       next_run_id := Suc 0, alive := {ex_pid},
                       events := [Spawned (''bash -c '' @ [CHR 0x27] @ ''cd app'' @ [CHR 0x27])
                                    ''/tmp/app'']\<rparr>)"
  by (simp add: ex_defs exec_defs)

lemma timeout_run:
  "execute_command ex_config ex_env_timeout ex_world ''sleep 5'' (Some 2000) True
     = Some (Inr ''stdout:\<newline>```\<newline>partial\<newline>\<newline>```'',
             ex_world\<lparr>proj := (proj ex_world)\<lparr>command_runs_count := 1\<rparr>,
                       command_runs := [''sleep 5'' \<mapsto>
                          \<lparr>cr_id = 0, cli_response = ''stdout:\<newline>```\<newline>partial\<newline>\<newline>```''\<rparr>],
                       next_run_id := Suc 0, alive := {},
                       events := [Spawned ''sleep 5'' ''/tmp/app'']\<rparr>)"
  by (simp add: ex_defs exec_defs)

lemma nospawn_run:
  "execute_command ex_config ex_env_nospawn ex_world ''sleep 5'' (Some 2000) True
     = Some (Inl OSError, ex_world\<lparr>proj := (proj ex_world)\<lparr>command_runs_count := 1\<rparr>\<rparr>)"
  by (simp add: ex_defs exec_defs)

section \<open>Result construction\<close>

text \<open>
  Claim C1. Whenever \<open>execute_command\<close> runs the command (no replay from history) and
  returns a string, that string is built from the two buffers the loop left: if the
  stderr buffer is non-empty, a section labelled \<open>stderr:\<close> and fenced by three
  backquotes, followed by the section labelled \<open>stdout:\<close>; if it is empty, the stdout
  section alone. Each section holds the last \<open>MAX_COMMAND_OUTPUT_LENGTH\<close> characters of
  its buffer (the whole buffer when it is shorter), for a positive
  \<open>MAX_COMMAND_OUTPUT_LENGTH\<close>. In particular, when the process of \<open>echo hello\<close>
  writes the one line \<open>hello\<close> to stdout and nothing to stderr and then exits, with no
  timeout and a cap of at least six characters, the result is \<open>stdout:\<close>, a fence,
  \<open>hello\<close>, an empty line and a fence, whatever the schedule of the drainer threads.
\<close>

theorem C1_result_text:
  "(0 < MAX_COMMAND_OUTPUT_LENGTH C \<and> \<not> replays w command
      \<and> execute_command C E w command timeout force = Some (Inr r, w')
    \<longrightarrow> (\<exists>exc s. control_loop (normalise_timeout C timeout) (ticks E) init_loop = Some (exc, s)
          \<and> r = (if stderr_output s \<noteq> []
                 then ''stderr:\<newline>```\<newline>''
                      @ drop (length (stderr_output s) - nat (MAX_COMMAND_OUTPUT_LENGTH C))
                          (stderr_output s)
                      @ ''\<newline>```\<newline>''
                 else [])
                @ ''stdout:\<newline>```\<newline>''
                @ drop (length (output_buf s) - nat (MAX_COMMAND_OUTPUT_LENGTH C)) (output_buf s)
                @ ''\<newline>```''))
   \<and> (6 \<le> MAX_COMMAND_OUTPUT_LENGTH C \<and> \<not> replays w ''echo hello'' \<and> popen E = Inr pid
      \<and> ticks E = pre @ fin # post \<and> (\<forall>t\<in>set pre. \<not> leaves None t)
      \<and> exited fin \<and> \<not> keyboard_interrupt fin
      \<and> concat (map new_stdout (pre @ [fin])) = [''hello\<newline>'']
      \<and> concat (map new_stderr (pre @ [fin])) = []
    \<longrightarrow> (\<exists>w''. execute_command C E w ''echo hello'' None force
                 = Some (Inr ''stdout:\<newline>```\<newline>hello\<newline>\<newline>```'', w'')))"
proof (intro conjI impI)
  assume a: "0 < MAX_COMMAND_OUTPUT_LENGTH C \<and> \<not> replays w command
      \<and> execute_command C E w command timeout force = Some (Inr r, w')"
  then obtain pid exc s where
    "control_loop (normalise_timeout C timeout) (ticks E) init_loop = Some (exc, s)"
    "r = build_return_value C (stderr_output s) (output_buf s)"
    using execute_command_Inr by blast
  with a show "\<exists>exc s. control_loop (normalise_timeout C timeout) (ticks E) init_loop = Some (exc, s)
          \<and> r = (if stderr_output s \<noteq> []
                 then ''stderr:\<newline>```\<newline>''
                      @ drop (length (stderr_output s) - nat (MAX_COMMAND_OUTPUT_LENGTH C))
                          (stderr_output s)
                      @ ''\<newline>```\<newline>''
                 else [])
                @ ''stdout:\<newline>```\<newline>''
                @ drop (length (output_buf s) - nat (MAX_COMMAND_OUTPUT_LENGTH C)) (output_buf s)
                @ ''\<newline>```''"
    using build_return_value_eq[of C] by blast
next
  assume a: "6 \<le> MAX_COMMAND_OUTPUT_LENGTH C \<and> \<not> replays w ''echo hello'' \<and> popen E = Inr pid
      \<and> ticks E = pre @ fin # post \<and> (\<forall>t\<in>set pre. \<not> leaves None t)
      \<and> exited fin \<and> \<not> keyboard_interrupt fin
      \<and> concat (map new_stdout (pre @ [fin])) = [''hello\<newline>'']
      \<and> concat (map new_stderr (pre @ [fin])) = []"
  then have lv: "leaves None fin" and ek: "exit_kind fin = None"
    by (simp_all add: leaves_def exit_kind_def)
  from a have pre: "\<forall>t\<in>set pre. \<not> leaves None t" by simp
  from a have eo: "concat (map new_stdout (pre @ [fin])) = [''hello\<newline>'']"
    and ee: "concat (map new_stderr (pre @ [fin])) = []"
    and tk: "ticks E = pre @ fin # post"
    by blast+
  obtain consumed rest econsumed erest s' where
    run0: "control_loop None (pre @ fin # post) init_loop = Some (exit_kind fin, s')" and
    so0: "q init_loop @ concat (map new_stdout (pre @ [fin])) = consumed @ rest" and
    se0: "q_stderr init_loop @ concat (map new_stderr (pre @ [fin])) = econsumed @ erest" and
    bo0: "output_buf s' = finish (exit_kind fin) rest (output_buf init_loop @ concat consumed)" and
    be0: "stderr_output s' = stderr_output init_loop @ concat econsumed"
    using control_loop_leaves[OF pre lv, of post init_loop] by blast
  from run0 tk ek have run: "control_loop None (ticks E) init_loop = Some (None, s')" by simp
  from so0 eo have so: "[''hello\<newline>''] = consumed @ rest" by simp
  from se0 ee have se: "[] = econsumed @ erest" by simp
  from bo0 ek have bo: "output_buf s' = final_drain rest ([] @ concat consumed)"
    by (simp add: finish_def)
  from be0 have be: "stderr_output s' = [] @ concat econsumed" by simp
  from bo hello_drain[OF so[symmetric]] have o: "output_buf s' = ''hello\<newline>''" by simp
  from be se have e: "stderr_output s' = []" by simp
  from a have r: "\<not> replays w ''echo hello''" and p: "popen E = Inr pid" by simp_all
  have nt: "normalise_timeout C None = None" by (simp add: normalise_timeout_def)
  from execute_command_executes[OF r p, of C None None s' force] run nt
  obtain w'' where
    "execute_command C E w ''echo hello'' None force
       = Some (Inr (build_return_value C (stderr_output s') (output_buf s')), w'')"
    by auto
  moreover have "build_return_value C [] ''hello\<newline>'' = ''stdout:\<newline>```\<newline>hello\<newline>\<newline>```''"
    using a by (simp add: build_return_value_def py_slice_from_def)
  ultimately show "\<exists>w''. execute_command C E w ''echo hello'' None force
                 = Some (Inr ''stdout:\<newline>```\<newline>hello\<newline>\<newline>```'', w'')"
    using o e by auto
qed

text \<open>The run of \<open>echo hello\<close> in the example world satisfies every hypothesis of C1.\<close>

theorem C1_result_text_witness:
  "0 < MAX_COMMAND_OUTPUT_LENGTH ex_config \<and> \<not> replays ex_world ''echo hello''
   \<and> (\<exists>w'. execute_command ex_config ex_env_echo ex_world ''echo hello'' None True
             = Some (Inr ''stdout:\<newline>```\<newline>hello\<newline>\<newline>```'', w'))
   \<and> (\<exists>exc s. control_loop (normalise_timeout ex_config None) (ticks ex_env_echo) init_loop
                 = Some (exc, s)
          \<and> ''stdout:\<newline>```\<newline>hello\<newline>\<newline>```''
             = (if stderr_output s \<noteq> []
                then ''stderr:\<newline>```\<newline>''
                     @ drop (length (stderr_output s) - nat (MAX_COMMAND_OUTPUT_LENGTH ex_config))
                         (stderr_output s)
                     @ ''\<newline>```\<newline>''
                else [])
               @ ''stdout:\<newline>```\<newline>''
               @ drop (length (output_buf s) - nat (MAX_COMMAND_OUTPUT_LENGTH ex_config))
                   (output_buf s)
               @ ''\<newline>```'')
   \<and> 6 \<le> MAX_COMMAND_OUTPUT_LENGTH ex_config \<and> popen ex_env_echo = Inr ex_pid
   \<and> ticks ex_env_echo = [ex_tick 5 False [''hello\<newline>''] []] @ ex_tick 12 True [] [] # []
   \<and> \<not> leaves None (ex_tick 5 False [''hello\<newline>''] [])
   \<and> exited (ex_tick 12 True [] []) \<and> \<not> keyboard_interrupt (ex_tick 12 True [] [])
   \<and> concat (map new_stdout ([ex_tick 5 False [''hello\<newline>''] []] @ [ex_tick 12 True [] []]))
       = [''hello\<newline>'']
   \<and> concat (map new_stderr ([ex_tick 5 False [''hello\<newline>''] []] @ [ex_tick 12 True [] []])) = []"
proof -
  have h1: "0 < MAX_COMMAND_OUTPUT_LENGTH ex_config \<and> \<not> replays ex_world ''echo hello''
      \<and> execute_command ex_config ex_env_echo ex_world ''echo hello'' None True
          = Some (Inr ''stdout:\<newline>```\<newline>hello\<newline>\<newline>```'',
                  snd (the (execute_command ex_config ex_env_echo ex_world ''echo hello'' None True)))"
    by (simp add: ex_defs exec_defs replays_def)
  have h2: "6 \<le> MAX_COMMAND_OUTPUT_LENGTH ex_config \<and> \<not> replays ex_world ''echo hello''
      \<and> popen ex_env_echo = Inr ex_pid
      \<and> ticks ex_env_echo = [ex_tick 5 False [''hello\<newline>''] []] @ ex_tick 12 True [] [] # []
      \<and> (\<forall>t\<in>set [ex_tick 5 False [''hello\<newline>''] []]. \<not> leaves None t)
      \<and> exited (ex_tick 12 True [] []) \<and> \<not> keyboard_interrupt (ex_tick 12 True [] [])
      \<and> concat (map new_stdout ([ex_tick 5 False [''hello\<newline>''] []] @ [ex_tick 12 True [] []]))
          = [''hello\<newline>'']
      \<and> concat (map new_stderr ([ex_tick 5 False [''hello\<newline>''] []] @ [ex_tick 12 True [] []])) = []"
    by (simp add: ex_defs replays_def wrap_command_def leaves_def)
  note C1_result_text[of ex_config ex_world "''echo hello''" ex_env_echo None True
      "''stdout:\<newline>```\<newline>hello\<newline>\<newline>```''"
      "snd (the (execute_command ex_config ex_env_echo ex_world ''echo hello'' None True))"
      ex_pid "[ex_tick 5 False [''hello\<newline>''] []]" "ex_tick 12 True [] []" "[]"]
  with h1 h2 show ?thesis by (simp add: leaves_def ex_tick_def)
qed

section \<open>What reaches the buffers\<close>




section \<open>The effective timeout\<close>

text \<open>
  Claim C3, as stated, fails where \<open>MIN_COMMAND_RUN_TIME\<close> is below 1000: with the
  interval from 500 to 60000, the timeout 600 lies in the interval, is below 1000 and
  so is multiplied by 1000, and the effective timeout is 60000.
\<close>

theorem C3_counterexample:
  "MIN_COMMAND_RUN_TIME \<lparr>MIN_COMMAND_RUN_TIME = 500, MAX_COMMAND_RUN_TIME = 60000,
                          MAX_COMMAND_OUTPUT_LENGTH = 2000\<rparr> \<le> 600
   \<and> 600 \<le> MAX_COMMAND_RUN_TIME \<lparr>MIN_COMMAND_RUN_TIME = 500, MAX_COMMAND_RUN_TIME = 60000,
                                  MAX_COMMAND_OUTPUT_LENGTH = 2000\<rparr>
   \<and> normalise_timeout \<lparr>MIN_COMMAND_RUN_TIME = 500, MAX_COMMAND_RUN_TIME = 60000,
                          MAX_COMMAND_OUTPUT_LENGTH = 2000\<rparr> (Some 600) = Some 60000
   \<and> (60000::int) \<noteq> 600"
  by (simp add: normalise_timeout_def)

text \<open>
  Claim C3, amended. When \<open>MIN_COMMAND_RUN_TIME\<close> is at most \<open>MAX_COMMAND_RUN_TIME\<close>,
  the effective timeout of a call with timeout \<open>t\<close> lies between the two; it is \<open>t\<close>
  itself whenever \<open>t\<close> lies between them and is at least 1000; a \<open>t\<close> below 1000 is
  multiplied by 1000 before it is clamped.
\<close>

theorem C3_effective_timeout:
  assumes "MIN_COMMAND_RUN_TIME C \<le> MAX_COMMAND_RUN_TIME C"
  shows "\<exists>e. normalise_timeout C (Some t) = Some e
           \<and> MIN_COMMAND_RUN_TIME C \<le> e \<and> e \<le> MAX_COMMAND_RUN_TIME C
           \<and> (MIN_COMMAND_RUN_TIME C \<le> t \<and> t \<le> MAX_COMMAND_RUN_TIME C \<and> 1000 \<le> t
                \<longrightarrow> e = t)
           \<and> (t < 1000 \<longrightarrow> e = min (max (t * 1000) (MIN_COMMAND_RUN_TIME C))
                                    (MAX_COMMAND_RUN_TIME C))"
  using assms by (auto simp add: normalise_timeout_def Let_def)

theorem C3_effective_timeout_witness:
  "MIN_COMMAND_RUN_TIME ex_config \<le> MAX_COMMAND_RUN_TIME ex_config
   \<and> normalise_timeout ex_config (Some 5000) = Some 5000
   \<and> MIN_COMMAND_RUN_TIME ex_config \<le> 5000 \<and> 5000 \<le> MAX_COMMAND_RUN_TIME ex_config
   \<and> (1000::int) \<le> 5000
   \<and> normalise_timeout ex_config (Some 30) = Some 30000 \<and> (30::int) < 1000"
  using C3_effective_timeout[of ex_config 5000] C3_effective_timeout[of ex_config 30]
  by (simp add: ex_config_def normalise_timeout_def)

text \<open>
  With a \<open>MIN_COMMAND_RUN_TIME\<close> of at least 1000 no timeout in the interval is below
  1000, and the effective timeout is the timeout given.
\<close>

lemma normalise_timeout_as_claimed:
  assumes "MIN_COMMAND_RUN_TIME C \<le> MAX_COMMAND_RUN_TIME C" and "1000 \<le> MIN_COMMAND_RUN_TIME C"
    and "MIN_COMMAND_RUN_TIME C \<le> t" and "t \<le> MAX_COMMAND_RUN_TIME C"
  shows "normalise_timeout C (Some t) = Some t"
  using assms by (simp add: normalise_timeout_def)

section \<open>Timeout and interruption\<close>

text \<open>
  Claim C4. When the loop meets a keyboard interrupt, or sees the timeout exceeded
  while the process has not exited, \<open>execute_command\<close> returns normally: the result is
  the labelled text built from the output dequeued so far (a part of the lines
  written, in order), and the process group is no longer alive. Whenever
  \<open>execute_command\<close> leaves by an exception, that exception is the one
  \<open>subprocess.Popen\<close> raised.
\<close>

theorem C4_abort_paths_return:
  "(\<not> replays w command \<and> popen E = Inr pid \<and> ticks E = pre @ fin # post
      \<and> (\<forall>t\<in>set pre. \<not> leaves (normalise_timeout C timeout) t)
      \<and> (keyboard_interrupt fin
           \<or> \<not> exited fin \<and> normalise_timeout C timeout \<noteq> None
               \<and> the (normalise_timeout C timeout) < elapsed_ms fin)
    \<longrightarrow> (\<exists>w' consumed rest econsumed erest.
           execute_command C E w command timeout force
             = Some (Inr (build_return_value C (concat econsumed) (concat consumed)), w')
         \<and> concat (map new_stdout (pre @ [fin])) = consumed @ rest
         \<and> concat (map new_stderr (pre @ [fin])) = econsumed @ erest
         \<and> pid \<notin> alive w'))
   \<and> (execute_command C E w command timeout force = Some (Inl e, w') \<longrightarrow> popen E = Inl e)"
proof (intro conjI impI)
  assume a: "\<not> replays w command \<and> popen E = Inr pid \<and> ticks E = pre @ fin # post
      \<and> (\<forall>t\<in>set pre. \<not> leaves (normalise_timeout C timeout) t)
      \<and> (keyboard_interrupt fin
           \<or> \<not> exited fin \<and> normalise_timeout C timeout \<noteq> None
               \<and> the (normalise_timeout C timeout) < elapsed_ms fin)"
  let ?T = "normalise_timeout C timeout"
  from a have r: "\<not> replays w command" and p: "popen E = Inr pid"
    and tk: "ticks E = pre @ fin # post" and pre: "\<forall>t\<in>set pre. \<not> leaves ?T t"
    by blast+
  from a have lv: "leaves ?T fin" by (auto simp: leaves_def)
  from a have ek: "exit_kind fin = Some KeyboardInterrupt \<or> exit_kind fin = Some TimeoutError"
    by (auto simp: exit_kind_def)
  obtain consumed rest econsumed erest s' where
    run0: "control_loop ?T (pre @ fin # post) init_loop = Some (exit_kind fin, s')" and
    so0: "q init_loop @ concat (map new_stdout (pre @ [fin])) = consumed @ rest" and
    se0: "q_stderr init_loop @ concat (map new_stderr (pre @ [fin])) = econsumed @ erest" and
    bo0: "output_buf s' = finish (exit_kind fin) rest (output_buf init_loop @ concat consumed)" and
    be0: "stderr_output s' = stderr_output init_loop @ concat econsumed"
    using control_loop_leaves[OF pre lv, of post init_loop] by blast
  from run0 tk have run: "control_loop ?T (ticks E) init_loop = Some (exit_kind fin, s')" by simp
  from bo0 ek have bo: "output_buf s' = concat consumed" by (auto simp: finish_def)
  from be0 have be: "stderr_output s' = concat econsumed" by simp
  from ek have ek': "exit_kind fin = None \<or> exit_kind fin = Some KeyboardInterrupt
      \<or> exit_kind fin = Some TimeoutError" by blast
  from execute_command_executes[OF r p run ek', of force] ek bo be
  obtain w' where "execute_command C E w command timeout force
             = Some (Inr (build_return_value C (concat econsumed) (concat consumed)), w')"
    and "pid \<notin> alive w'"
    by auto
  with so0 se0 show "\<exists>w' consumed rest econsumed erest.
           execute_command C E w command timeout force
             = Some (Inr (build_return_value C (concat econsumed) (concat consumed)), w')
         \<and> concat (map new_stdout (pre @ [fin])) = consumed @ rest
         \<and> concat (map new_stderr (pre @ [fin])) = econsumed @ erest
         \<and> pid \<notin> alive w'"
    by (simp only: loop_state.simps append_Nil) blast
next
  assume a: "execute_command C E w command timeout force = Some (Inl e, w')"
  show "popen E = Inl e"
  proof (cases "replays w command")
    case True
    from execute_command_replay[OF True, of C E timeout force] a show ?thesis by auto
  next
    case False
    show ?thesis
    proof (cases "popen E")
      case (Inl e')
      from execute_command_spawn_fails[OF False Inl, of C timeout force] a Inl
      show ?thesis by auto
    next
      case (Inr pid)
      show ?thesis
      proof (cases "control_loop (normalise_timeout C timeout) (ticks E) init_loop")
        case None
        from execute_command_running[OF False Inr None, of force] a show ?thesis by simp
      next
        case (Some x)
        obtain exc s where "x = (exc, s)" by (cases x)
        with Some have run: "control_loop (normalise_timeout C timeout) (ticks E) init_loop
            = Some (exc, s)" by simp
        from execute_command_executes[OF False Inr run control_loop_exc[OF run], of force] a
        show ?thesis by auto
      qed
    qed
  qed
qed

text \<open>A process that outlives a timeout of 2000 ms, and a spawn that fails.\<close>

theorem C4_abort_paths_return_witness:
  "\<not> replays ex_world ''sleep 5'' \<and> popen ex_env_timeout = Inr ex_pid
   \<and> ticks ex_env_timeout = [ex_tick 1000 False [''partial\<newline>''] []] @ ex_tick 2001 False [] [] # []
   \<and> \<not> leaves (normalise_timeout ex_config (Some 2000)) (ex_tick 1000 False [''partial\<newline>''] [])
   \<and> \<not> exited (ex_tick 2001 False [] []) \<and> normalise_timeout ex_config (Some 2000) = Some 2000
   \<and> (2000::int) < elapsed_ms (ex_tick 2001 False [] [])
   \<and> (\<exists>w' consumed rest econsumed erest.
           execute_command ex_config ex_env_timeout ex_world ''sleep 5'' (Some 2000) True
             = Some (Inr (build_return_value ex_config (concat econsumed) (concat consumed)), w')
         \<and> [''partial\<newline>''] = consumed @ rest
         \<and> [] = econsumed @ erest
         \<and> ex_pid \<notin> alive w')
   \<and> execute_command ex_config ex_env_timeout ex_world ''sleep 5'' (Some 2000) True
       = Some (Inr ''stdout:\<newline>```\<newline>partial\<newline>\<newline>```'',
               snd (the (execute_command ex_config ex_env_timeout ex_world ''sleep 5'' (Some 2000) True)))
   \<and> execute_command ex_config ex_env_nospawn ex_world ''sleep 5'' (Some 2000) True
       = Some (Inl OSError, ex_world\<lparr>proj := (proj ex_world)\<lparr>command_runs_count := 1\<rparr>\<rparr>)
   \<and> popen ex_env_nospawn = Inl OSError"
proof -
  have h: "\<not> replays ex_world ''sleep 5'' \<and> popen ex_env_timeout = Inr ex_pid
      \<and> ticks ex_env_timeout = [ex_tick 1000 False [''partial\<newline>''] []] @ ex_tick 2001 False [] [] # []
      \<and> (\<forall>t\<in>set [ex_tick 1000 False [''partial\<newline>''] []].
            \<not> leaves (normalise_timeout ex_config (Some 2000)) t)
      \<and> (keyboard_interrupt (ex_tick 2001 False [] [])
           \<or> \<not> exited (ex_tick 2001 False [] []) \<and> normalise_timeout ex_config (Some 2000) \<noteq> None
               \<and> the (normalise_timeout ex_config (Some 2000)) < elapsed_ms (ex_tick 2001 False [] []))"
    by (simp add: ex_defs replays_def wrap_command_def leaves_def normalise_timeout_def)
  have e: "concat (map new_stdout ([ex_tick 1000 False [''partial\<newline>''] []] @ [ex_tick 2001 False [] []]))
             = [''partial\<newline>'']"
    "concat (map new_stderr ([ex_tick 1000 False [''partial\<newline>''] []] @ [ex_tick 2001 False [] []])) = []"
    by (simp_all add: ex_tick_def)
  have c1: "\<exists>w' consumed rest econsumed erest.
           execute_command ex_config ex_env_timeout ex_world ''sleep 5'' (Some 2000) True
             = Some (Inr (build_return_value ex_config (concat econsumed) (concat consumed)), w')
         \<and> [''partial\<newline>''] = consumed @ rest
         \<and> [] = econsumed @ erest
         \<and> ex_pid \<notin> alive w'"
    using C4_abort_paths_return[of ex_world "''sleep 5''" ex_env_timeout ex_pid
        "[ex_tick 1000 False [''partial\<newline>''] []]" "ex_tick 2001 False [] []" "[]"
        ex_config "Some 2000" True] h
    unfolding e by blast
  have c2: "popen ex_env_nospawn = Inl OSError"
    using C4_abort_paths_return[of ex_world "''sleep 5''" ex_env_nospawn _ _ _ _
        ex_config "Some 2000" True OSError] nospawn_run by blast
  have s: "\<not> leaves (normalise_timeout ex_config (Some 2000)) (ex_tick 1000 False [''partial\<newline>''] [])"
    "\<not> exited (ex_tick 2001 False [] [])" "normalise_timeout ex_config (Some 2000) = Some 2000"
    "(2000::int) < elapsed_ms (ex_tick 2001 False [] [])"
    by (simp_all add: leaves_def ex_tick_def normalise_timeout_def ex_config_def)
  have r1: "execute_command ex_config ex_env_timeout ex_world ''sleep 5'' (Some 2000) True
       = Some (Inr ''stdout:\<newline>```\<newline>partial\<newline>\<newline>```'',
               snd (the (execute_command ex_config ex_env_timeout ex_world ''sleep 5'' (Some 2000) True)))"
    by (simp add: timeout_run)
  from h c1 c2 s r1 nospawn_run show ?thesis by blast
qed

section \<open>Termination is idempotent\<close>

text \<open>
  Claim C5. For every process identifier (the identifier of a child process: an
  integer above 1 that fits C's \<open>pid_t\<close>), on the Windows path and on the POSIX
  path, \<open>terminate_process\<close> returns normally and leaves the process not alive;
  called again on the same identifier it returns normally and changes nothing; called
  on a process that is not alive it returns normally and changes nothing.
\<close>

theorem C5_terminate_process_idempotent:
  "1 < pid_number pid \<and> pid_number pid < 2147483648
   \<and> (\<exists>w1. terminate_process w pid = Inr w1 \<and> pid \<notin> alive w1
            \<and> alive w1 = alive w - {pid} \<and> terminate_process w1 pid = Inr w1)
   \<and> (pid \<notin> alive w \<longrightarrow> terminate_process w pid = Inr w)"
proof -
  let ?w1 = "w\<lparr>alive := alive w - {pid}\<rparr>"
  have "terminate_process ?w1 pid = Inr (?w1\<lparr>alive := alive ?w1 - {pid}\<rparr>)"
    by (rule terminate_process_returns)
  then have "terminate_process ?w1 pid = Inr ?w1" by simp
  moreover have "terminate_process w pid = Inr w" if "pid \<notin> alive w"
    using that terminate_process_returns[of w pid] by simp
  ultimately show ?thesis
    using terminate_process_returns[of w pid] pid_number_bounds[of pid] by simp
qed

text \<open>
  A live process among two, on POSIX and on Windows: the first call kills it, the
  second changes nothing.
\<close>

theorem C5_terminate_process_idempotent_witness:
  "pid_number ex_pid = 4242
   \<and> terminate_process (ex_world\<lparr>alive := {ex_pid, other_pid}\<rparr>) ex_pid
       = Inr (ex_world\<lparr>alive := {other_pid}\<rparr>)
   \<and> terminate_process (ex_world\<lparr>alive := {other_pid}\<rparr>) ex_pid
       = Inr (ex_world\<lparr>alive := {other_pid}\<rparr>)
   \<and> terminate_process (ex_world\<lparr>alive := {ex_pid, other_pid}, windows := True\<rparr>) ex_pid
       = Inr (ex_world\<lparr>alive := {other_pid}, windows := True\<rparr>)
   \<and> terminate_process (ex_world\<lparr>alive := {other_pid}, windows := True\<rparr>) ex_pid
       = Inr (ex_world\<lparr>alive := {other_pid}, windows := True\<rparr>)
   \<and> ex_pid \<notin> alive (ex_world\<lparr>alive := {other_pid}\<rparr>)"
  using C5_terminate_process_idempotent[of ex_pid "ex_world\<lparr>alive := {ex_pid, other_pid}\<rparr>"]
    C5_terminate_process_idempotent[of ex_pid "ex_world\<lparr>alive := {other_pid}\<rparr>"]
    C5_terminate_process_idempotent[of ex_pid
      "ex_world\<lparr>alive := {ex_pid, other_pid}, windows := True\<rparr>"]
    C5_terminate_process_idempotent[of ex_pid "ex_world\<lparr>alive := {other_pid}, windows := True\<rparr>"]
  by (simp add: ex_world_def terminate_process_def os_killpg_def subprocess_run_taskkill_def
      ex_pid_number ex_pid_distinct)

section \<open>The interruption flag\<close>

text \<open>
  Claim C6 says that the flag the drainers read goes from false to true on the
  timeout and interruption paths. It does not: no call of \<open>execute_command\<close>, on any
  path, changes the module-level \<open>interrupted\<close>, and a drainer that reads it after the
  call, the flag having been false before, still puts every line it reads on its queue.
\<close>

theorem C6_module_flag_unchanged:
  assumes "execute_command C E w command timeout force = Some (res, w')"
  shows "interrupted w' = interrupted w
         \<and> (\<not> interrupted w
              \<longrightarrow> enqueue_output (interrupted w') out qu = qu @ takeWhile (\<lambda>line. line \<noteq> []) out)"
proof -
  from assms have "interrupted w' = interrupted w"
    by (cases rule: execute_command_cases)
  then show ?thesis by (simp add: enqueue_output_not_interrupted)
qed

theorem C6_module_flag_unchanged_witness:
  "execute_command ex_config ex_env_timeout ex_world ''sleep 5'' (Some 2000) True
     = Some (Inr ''stdout:\<newline>```\<newline>partial\<newline>\<newline>```'',
             snd (the (execute_command ex_config ex_env_timeout ex_world ''sleep 5'' (Some 2000) True)))
   \<and> \<not> interrupted ex_world
   \<and> \<not> interrupted (snd (the (execute_command ex_config ex_env_timeout ex_world ''sleep 5''
                                 (Some 2000) True)))
   \<and> enqueue_output
        (interrupted (snd (the (execute_command ex_config ex_env_timeout ex_world ''sleep 5''
                                 (Some 2000) True))))
        [''late\<newline>''] [] = [''late\<newline>'']"
proof -
  have r: "execute_command ex_config ex_env_timeout ex_world ''sleep 5'' (Some 2000) True
     = Some (Inr ''stdout:\<newline>```\<newline>partial\<newline>\<newline>```'',
             snd (the (execute_command ex_config ex_env_timeout ex_world ''sleep 5'' (Some 2000) True)))"
    by (simp add: timeout_run)
  have f: "\<not> interrupted ex_world" by (simp add: ex_world_def)
  from C6_module_flag_unchanged[OF r, of "[''late\<newline>'']" "[]"] f r show ?thesis by simp
qed

section \<open>The history hook\<close>

text \<open>
  Claim C7. When the history store holds a run under the command text (as it is
  spawned) and the project has \<open>skip_steps\<close> set, \<open>execute_command\<close> returns the stored
  response, spawns nothing and leaves the set of live processes as it was. When it
  runs the command instead and returns a string, the store afterwards holds that
  string under the command text, and any later call with the same command and
  \<open>skip_steps\<close> set returns that string without spawning.
\<close>

theorem C7_history_hook:
  "(replays w command
      \<longrightarrow> (\<exists>w'. execute_command C E w command timeout force
                  = Some (Inr (cli_response (the (command_runs w (wrap_command command)))), w')
              \<and> spawned (events w') = spawned (events w) \<and> alive w' = alive w))
   \<and> (\<not> replays w command \<and> execute_command C E w command timeout force = Some (Inr r, w')
      \<longrightarrow> (\<exists>cr. command_runs w' (wrap_command command) = Some cr \<and> cli_response cr = r)
          \<and> (\<exists>w''. execute_command C E' (w'\<lparr>proj := (proj w')\<lparr>skip_steps := True\<rparr>\<rparr>)
                       command timeout' force' = Some (Inr r, w'')
                  \<and> spawned (events w'') = spawned (events w')))"
proof (intro conjI impI)
  assume "replays w command"
  from execute_command_replay[OF this, of C E timeout force]
  show "\<exists>w'. execute_command C E w command timeout force
                  = Some (Inr (cli_response (the (command_runs w (wrap_command command)))), w')
              \<and> spawned (events w') = spawned (events w) \<and> alive w' = alive w"
    by blast
next
  assume a: "\<not> replays w command \<and> execute_command C E w command timeout force = Some (Inr r, w')"
  then have run: "execute_command C E w command timeout force = Some (Inr r, w')" by simp
  from run a show "\<exists>cr. command_runs w' (wrap_command command) = Some cr \<and> cli_response cr = r"
    by (cases rule: execute_command_cases) auto
next
  assume a: "\<not> replays w command \<and> execute_command C E w command timeout force = Some (Inr r, w')"
  then have run: "execute_command C E w command timeout force = Some (Inr r, w')" by simp
  let ?w = "w'\<lparr>proj := (proj w')\<lparr>skip_steps := True\<rparr>\<rparr>"
  from run a have st: "\<exists>cr. command_runs w' (wrap_command command) = Some cr \<and> cli_response cr = r"
    by (cases rule: execute_command_cases) auto
  then have rp: "replays ?w command" by (auto simp: replays_def)
  from execute_command_replay[OF rp, of C E' timeout' force'] st
  show "\<exists>w''. execute_command C E' ?w command timeout' force' = Some (Inr r, w'')
                  \<and> spawned (events w'') = spawned (events w')"
    by auto
qed

text \<open>A replay from a filled store, and a run of \<open>echo hello\<close> followed by a replay.\<close>

theorem C7_history_hook_witness:
  "replays ex_world_hist ''echo hello''
   \<and> (\<exists>w'. execute_command ex_config ex_env_echo ex_world_hist ''echo hello'' None True
              = Some (Inr ''old'', w')
          \<and> spawned (events w') = spawned (events ex_world_hist)
          \<and> alive w' = alive ex_world_hist)
   \<and> \<not> replays ex_world ''echo hello''
   \<and> execute_command ex_config ex_env_echo ex_world ''echo hello'' None True
       = Some (Inr ''stdout:\<newline>```\<newline>hello\<newline>\<newline>```'',
               snd (the (execute_command ex_config ex_env_echo ex_world ''echo hello'' None True)))
   \<and> (\<exists>cr. command_runs
               (snd (the (execute_command ex_config ex_env_echo ex_world ''echo hello'' None True)))
               ''echo hello'' = Some cr
          \<and> cli_response cr = ''stdout:\<newline>```\<newline>hello\<newline>\<newline>```'')
   \<and> (\<exists>w''. execute_command ex_config ex_env_nospawn
                 ((snd (the (execute_command ex_config ex_env_echo ex_world ''echo hello'' None True)))
                    \<lparr>proj := (proj (snd (the (execute_command ex_config ex_env_echo ex_world
                                                ''echo hello'' None True))))
                               \<lparr>skip_steps := True\<rparr>\<rparr>)
                 ''echo hello'' (Some 5) False
               = Some (Inr ''stdout:\<newline>```\<newline>hello\<newline>\<newline>```'', w'')
            \<and> spawned (events w'')
               = spawned (events (snd (the (execute_command ex_config ex_env_echo ex_world
                                              ''echo hello'' None True)))))"
proof -
  let ?W = "snd (the (execute_command ex_config ex_env_echo ex_world ''echo hello'' None True))"
  have wc: "wrap_command ''echo hello'' = ''echo hello''" by (simp add: wrap_command_def)
  have h1: "replays ex_world_hist ''echo hello''"
    by (simp add: replays_def wc ex_world_hist_def ex_world_def)
  have v: "cli_response (the (command_runs ex_world_hist ''echo hello'')) = ''old''"
    by (simp add: ex_world_hist_def ex_world_def)
  have h2: "\<not> replays ex_world ''echo hello''" by (simp add: replays_def ex_world_def)
  have h3: "execute_command ex_config ex_env_echo ex_world ''echo hello'' None True
       = Some (Inr ''stdout:\<newline>```\<newline>hello\<newline>\<newline>```'', ?W)"
    by (simp add: echo_run)
  from C7_history_hook[of ex_world_hist "''echo hello''" ex_config ex_env_echo None True] h1
  have c1: "\<exists>w'. execute_command ex_config ex_env_echo ex_world_hist ''echo hello'' None True
              = Some (Inr ''old'', w')
          \<and> spawned (events w') = spawned (events ex_world_hist)
          \<and> alive w' = alive ex_world_hist"
    unfolding wc v by blast
  from C7_history_hook[of ex_world "''echo hello''" ex_config ex_env_echo None True
      "''stdout:\<newline>```\<newline>hello\<newline>\<newline>```''" ?W ex_env_nospawn "Some 5" False] h2 h3
  have c2: "(\<exists>cr. command_runs ?W ''echo hello'' = Some cr
          \<and> cli_response cr = ''stdout:\<newline>```\<newline>hello\<newline>\<newline>```'')
   \<and> (\<exists>w''. execute_command ex_config ex_env_nospawn (?W\<lparr>proj := (proj ?W)\<lparr>skip_steps := True\<rparr>\<rparr>)
                 ''echo hello'' (Some 5) False
               = Some (Inr ''stdout:\<newline>```\<newline>hello\<newline>\<newline>```'', w'')
            \<and> spawned (events w'') = spawned (events ?W))"
    unfolding wc by blast
  from h1 c1 h2 h3 c2 show ?thesis by blast
qed

section \<open>The final drain\<close>

text \<open>
  Claim C8, as stated, fails: it speaks of the exact line and of genuinely new lines,
  and the drain tests text. When the lines \<open>ab\<close> and \<open>b\<close> are queued at exit, the
  buffer ends with \<open>ab\<close> only: \<open>b\<close> is none of the lines before it, but its text
  (with its newline) ends the text of \<open>ab\<close>. A blank line after any output is
  dropped in the same way.
\<close>

theorem C8_counterexample:
  "control_loop None [ex_tick 7 True [''ab\<newline>'', ''b\<newline>''] []] init_loop
     = Some (None, \<lparr>q = [], q_stderr = [], output_buf = ''ab\<newline>'', stderr_output = []\<rparr>)
   \<and> final_drain [''ab\<newline>'', ''b\<newline>''] [] = ''ab\<newline>''
   \<and> ''b\<newline>'' \<notin> set [''ab\<newline>'']
   \<and> final_drain [''a\<newline>'', ''\<newline>'', ''b\<newline>''] [] = ''a\<newline>b\<newline>''
   \<and> ''\<newline>'' \<notin> set [''a\<newline>'']"
  by (simp add: ex_tick_def)

text \<open>
  Claim C8, amended. In the final drain, the line at position \<open>i\<close> of the queue is
  appended to the buffer accumulated so far (the buffer at the start of the drain and
  the lines the drain has appended before) if and only if its text, with its newline,
  does not occur in that buffer as a contiguous run of characters. A line whose text
  occurs there (a repeat of an earlier line, the end of an earlier line, a blank line
  after any output) leaves the buffer as it is, whether the process wrote it anew or
  not; every other remaining line is appended. The loop runs this drain on the stdout
  queue when it sees that the process has exited.
\<close>

theorem C8_final_drain_suppresses_present_lines:
  "(i < length queue
      \<longrightarrow> final_drain (take (Suc i) queue) out =
            (if \<exists>p s. final_drain (take i queue) out = p @ queue ! i @ s
             then final_drain (take i queue) out
             else final_drain (take i queue) out @ queue ! i))
   \<and> (exited t \<and> \<not> keyboard_interrupt t
      \<longrightarrow> (\<exists>st'. control_loop timeout (t # ts) st = Some (None, st')
              \<and> output_buf st' = final_drain (q st @ new_stdout t) (output_buf st)))"
proof (intro conjI impI)
  assume "i < length queue"
  then have "take (Suc i) queue = take i queue @ [queue ! i]"
    by (rule take_Suc_conv_app_nth)
  then show "final_drain (take (Suc i) queue) out =
            (if \<exists>p s. final_drain (take i queue) out = p @ queue ! i @ s
             then final_drain (take i queue) out
             else final_drain (take i queue) out @ queue ! i)"
    by (simp add: final_drain_snoc py_in_sublist sublist_def)
next
  assume "exited t \<and> \<not> keyboard_interrupt t"
  then show "\<exists>st'. control_loop timeout (t # ts) st = Some (None, st')
              \<and> output_buf st' = final_drain (q st @ new_stdout t) (output_buf st)"
    by (simp add: Let_def)
qed

text \<open>A queue whose third line repeats the first, and an exit tick with one queued line.\<close>

theorem C8_final_drain_suppresses_present_lines_witness:
  "(2::nat) < length [''a\<newline>'', ''b\<newline>'', ''a\<newline>'']
   \<and> final_drain (take (Suc 2) [''a\<newline>'', ''b\<newline>'', ''a\<newline>'']) [] =
       (if \<exists>p s. final_drain (take 2 [''a\<newline>'', ''b\<newline>'', ''a\<newline>'']) []
                   = p @ [''a\<newline>'', ''b\<newline>'', ''a\<newline>''] ! 2 @ s
        then final_drain (take 2 [''a\<newline>'', ''b\<newline>'', ''a\<newline>'']) []
        else final_drain (take 2 [''a\<newline>'', ''b\<newline>'', ''a\<newline>'']) []
               @ [''a\<newline>'', ''b\<newline>'', ''a\<newline>''] ! 2)
   \<and> final_drain (take 2 [''a\<newline>'', ''b\<newline>'', ''a\<newline>'']) [] = ''a\<newline>b\<newline>''
   \<and> final_drain (take (Suc 2) [''a\<newline>'', ''b\<newline>'', ''a\<newline>'']) [] = ''a\<newline>b\<newline>''
   \<and> exited (ex_tick 9 True [''b\<newline>''] []) \<and> \<not> keyboard_interrupt (ex_tick 9 True [''b\<newline>''] [])
   \<and> (\<exists>st'. control_loop None (ex_tick 9 True [''b\<newline>''] [] # [])
               \<lparr>q = [''a\<newline>''], q_stderr = [], output_buf = ''a\<newline>'', stderr_output = []\<rparr>
             = Some (None, st')
        \<and> output_buf st'
           = final_drain (q \<lparr>q = [''a\<newline>''], q_stderr = [], output_buf = ''a\<newline>'', stderr_output = []\<rparr>
                           @ new_stdout (ex_tick 9 True [''b\<newline>''] []))
               (output_buf \<lparr>q = [''a\<newline>''], q_stderr = [], output_buf = ''a\<newline>'',
                             stderr_output = []\<rparr>))
   \<and> final_drain ([''a\<newline>''] @ [''b\<newline>'']) ''a\<newline>'' = ''a\<newline>b\<newline>''"
proof -
  let ?Q = "[''a\<newline>'', ''b\<newline>'', ''a\<newline>'']"
  let ?t = "ex_tick 9 True [''b\<newline>''] []"
  let ?st = "\<lparr>q = [''a\<newline>''], q_stderr = [], output_buf = ''a\<newline>'', stderr_output = []\<rparr>"
  note T = C8_final_drain_suppresses_present_lines[of 2 ?Q "[]" ?t None "[]" ?st]
  have L: "(2::nat) < length ?Q" by simp
  have X: "exited ?t \<and> \<not> keyboard_interrupt ?t" by (simp add: ex_tick_def)
  note A = T[THEN conjunct1, THEN mp, OF L]
  note B = T[THEN conjunct2, THEN mp, OF X]
  have d2: "final_drain (take 2 ?Q) [] = ''a\<newline>b\<newline>''"
    by (simp add: numeral_2_eq_2)
  have d3: "final_drain (take (Suc 2) ?Q) [] = ''a\<newline>b\<newline>''"
    by (simp add: numeral_2_eq_2)
  have d4: "final_drain ([''a\<newline>''] @ [''b\<newline>'']) ''a\<newline>'' = ''a\<newline>b\<newline>''"
    by simp
  from X have X1: "exited ?t" and X2: "\<not> keyboard_interrupt ?t" by simp_all
  show ?thesis
    using L A d2 d3 X1 X2 B d4 by (intro conjI)
qed

section \<open>The shell wrapper\<close>

text \<open>
  Claim C9. A call of \<open>execute_command\<close> that returns spawns at most one command: none
  when it replays from history or \<open>subprocess.Popen\<close> raises, and otherwise the
  command string wrapped as \<open>bash -c\<close> followed by the string in single quotes when
  the string contains \<open>cd\<close> and a space or \<open>source\<close> and a space, and the string
  unchanged when it contains neither.
\<close>

theorem C9_spawned_command:
  assumes "execute_command C E w command timeout force = Some (res, w')"
  shows "spawned (events w') = spawned (events w) @
           (if replays w command \<or> (\<exists>e. popen E = Inl e) then []
            else [if (\<exists>p s. command = p @ ''cd '' @ s) \<or> (\<exists>p s. command = p @ ''source '' @ s)
                  then ''bash -c '' @ [CHR 0x27] @ command @ [CHR 0x27]
                  else command])"
proof -
  have w: "wrap_command command =
      (if (\<exists>p s. command = p @ ''cd '' @ s) \<or> (\<exists>p s. command = p @ ''source '' @ s)
       then ''bash -c '' @ [CHR 0x27] @ command @ [CHR 0x27] else command)"
    unfolding wrap_command_def py_in_sublist sublist_def by simp
  from assms show ?thesis
  proof (cases rule: execute_command_cases)
    case replay
    then show ?thesis by simp
  next
    case (nospawn e)
    then show ?thesis by simp
  next
    case (executed pid exc s)
    then show ?thesis unfolding w by simp
  qed
qed

text \<open>The command \<open>cd app\<close> is wrapped, \<open>echo hello\<close> is not.\<close>

theorem C9_spawned_command_witness:
  "execute_command ex_config ex_env_echo ex_world ''cd app'' None True
     = Some (Inr ''stdout:\<newline>```\<newline>hello\<newline>\<newline>```'',
             snd (the (execute_command ex_config ex_env_echo ex_world ''cd app'' None True)))
   \<and> spawned (events (snd (the (execute_command ex_config ex_env_echo ex_world ''cd app'' None True))))
       = [''bash -c '' @ [CHR 0x27] @ ''cd app'' @ [CHR 0x27]]
   \<and> execute_command ex_config ex_env_echo ex_world ''echo hello'' None True
     = Some (Inr ''stdout:\<newline>```\<newline>hello\<newline>\<newline>```'',
             snd (the (execute_command ex_config ex_env_echo ex_world ''echo hello'' None True)))
   \<and> spawned (events (snd (the (execute_command ex_config ex_env_echo ex_world ''echo hello''
                                   None True))))
       = [''echo hello'']"
proof -
  let ?W = "snd (the (execute_command ex_config ex_env_echo ex_world ''cd app'' None True))"
  let ?V = "snd (the (execute_command ex_config ex_env_echo ex_world ''echo hello'' None True))"
  have r1: "execute_command ex_config ex_env_echo ex_world ''cd app'' None True
     = Some (Inr ''stdout:\<newline>```\<newline>hello\<newline>\<newline>```'', ?W)"
    by (simp add: cd_run)
  have r2: "execute_command ex_config ex_env_echo ex_world ''echo hello'' None True
     = Some (Inr ''stdout:\<newline>```\<newline>hello\<newline>\<newline>```'', ?V)"
    by (simp add: echo_run)
  have s1: "(\<exists>p s. ''cd app'' = p @ ''cd '' @ s) = True"
    using py_in_sublist[of "''cd ''" "''cd app''"] unfolding sublist_def by simp
  have s2: "(\<exists>p s. ''echo hello'' = p @ ''cd '' @ s) = False"
    using py_in_sublist[of "''cd ''" "''echo hello''"] unfolding sublist_def by simp
  have s3: "(\<exists>p s. ''echo hello'' = p @ ''source '' @ s) = False"
    using py_in_sublist[of "''source ''" "''echo hello''"] unfolding sublist_def by simp
  have n: "replays ex_world ''cd app'' = False" "replays ex_world ''echo hello'' = False"
    "(\<exists>e. popen ex_env_echo = Inl e) = False" "spawned (events ex_world) = []"
    by (simp_all add: replays_def ex_world_def ex_env_echo_def spawned_def)
  have c1: "spawned (events ?W) = [''bash -c '' @ [CHR 0x27] @ ''cd app'' @ [CHR 0x27]]"
    using C9_spawned_command[OF r1] unfolding s1 n by simp
  have c2: "spawned (events ?V) = [''echo hello'']"
    using C9_spawned_command[OF r2] unfolding s2 s3 n by simp
  show ?thesis using r1 c1 r2 c2 by (intro conjI)
qed

section \<open>The confirmation prompt\<close>

text \<open>
  Claim C10. The reply to the prompt has no effect: for every reply the call does
  the same. A call with \<open>force\<close> false does what a call with \<open>force\<close> true does once
  the prompt has been shown. A call that returns has shown the prompt once when
  \<open>force\<close> is false and not at all when it is true, and when it neither replays from
  history nor fails to spawn, it has spawned the command.
\<close>

theorem C10_reply_never_examined:
  "execute_command C (E\<lparr>reply := r\<rparr>) w command timeout force
     = execute_command C E w command timeout force
   \<and> execute_command C E w command timeout False
     = execute_command C E (w\<lparr>events := events w @ [Prompted ''If yes, just press ENTER'']\<rparr>)
         command timeout True
   \<and> (execute_command C E w command timeout force = Some (res, w')
      \<longrightarrow> prompts (events w') = prompts (events w)
              @ (if force then [] else [''If yes, just press ENTER''])
          \<and> (\<not> replays w command \<and> popen E = Inr pid
               \<longrightarrow> spawned (events w') = spawned (events w) @ [wrap_command command]))"
proof (intro conjI impI)
  show "execute_command C (E\<lparr>reply := r\<rparr>) w command timeout force
     = execute_command C E w command timeout force"
  proof -
    have e: "ticks (E\<lparr>reply := r\<rparr>) = ticks E" "popen (E\<lparr>reply := r\<rparr>) = popen E"
      by simp_all
    show ?thesis unfolding execute_command_def e by (cases force) (simp_all add: Let_def)
  qed
  show "execute_command C E w command timeout False
     = execute_command C E (w\<lparr>events := events w @ [Prompted ''If yes, just press ENTER'']\<rparr>)
         command timeout True"
  proof -
    let ?w = "w\<lparr>events := events w @ [Prompted ''If yes, just press ENTER'']\<rparr>"
    show ?thesis unfolding execute_command_def by (simp add: Let_def)
  qed
next
  assume a: "execute_command C E w command timeout force = Some (res, w')"
  then show "prompts (events w') = prompts (events w)
              @ (if force then [] else [''If yes, just press ENTER''])"
    by (cases rule: execute_command_cases)
next
  assume a: "execute_command C E w command timeout force = Some (res, w')"
    and b: "\<not> replays w command \<and> popen E = Inr pid"
  from a show "spawned (events w') = spawned (events w) @ [wrap_command command]"
  proof (cases rule: execute_command_cases)
    case replay
    with b show ?thesis by simp
  next
    case (nospawn e)
    with b show ?thesis by simp
  next
    case (executed pid exc s)
    then show ?thesis by simp
  qed
qed

text \<open>The reply \<open>no\<close> to the prompt for \<open>echo hello\<close>: the command runs all the same.\<close>

theorem C10_reply_never_examined_witness:
  "execute_command ex_config (ex_env_echo\<lparr>reply := ''no''\<rparr>) ex_world ''echo hello'' None False
     = execute_command ex_config ex_env_echo ex_world ''echo hello'' None False
   \<and> execute_command ex_config ex_env_echo ex_world ''echo hello'' None False
     = execute_command ex_config ex_env_echo
         (ex_world\<lparr>events := events ex_world @ [Prompted ''If yes, just press ENTER'']\<rparr>)
         ''echo hello'' None True
   \<and> execute_command ex_config ex_env_echo ex_world ''echo hello'' None False
     = Some (Inr ''stdout:\<newline>```\<newline>hello\<newline>\<newline>```'',
             snd (the (execute_command ex_config ex_env_echo ex_world ''echo hello'' None False)))
   \<and> prompts (events (snd (the (execute_command ex_config ex_env_echo ex_world ''echo hello''
                                   None False))))
       = [''If yes, just press ENTER'']
   \<and> \<not> replays ex_world ''echo hello'' \<and> popen ex_env_echo = Inr ex_pid
   \<and> spawned (events (snd (the (execute_command ex_config ex_env_echo ex_world ''echo hello''
                                   None False))))
       = [''echo hello'']"
proof -
  let ?W = "snd (the (execute_command ex_config ex_env_echo ex_world ''echo hello'' None False))"
  note T = C10_reply_never_examined[where C = ex_config and E = ex_env_echo and r = "''no''"
      and w = ex_world and command = "''echo hello''" and timeout = None and force = False
      and res = "Inr ''stdout:\<newline>```\<newline>hello\<newline>\<newline>```''" and w' = ?W and pid = ex_pid]
  have r: "execute_command ex_config ex_env_echo ex_world ''echo hello'' None False
     = Some (Inr ''stdout:\<newline>```\<newline>hello\<newline>\<newline>```'', ?W)"
    by (simp add: echo_run_prompted)
  have h: "\<not> replays ex_world ''echo hello''" "popen ex_env_echo = Inr ex_pid"
    by (simp_all add: replays_def ex_world_def ex_env_echo_def)
  have n: "prompts (events ex_world) = []" "spawned (events ex_world) = []"
    "wrap_command ''echo hello'' = ''echo hello''"
    by (simp_all add: ex_world_def prompts_def spawned_def wrap_command_def)
  note A = T[THEN conjunct1]
  note B = T[THEN conjunct2, THEN conjunct1]
  note D = T[THEN conjunct2, THEN conjunct2, THEN mp, OF r]
  from D have c1: "prompts (events ?W) = [''If yes, just press ENTER'']"
    unfolding n by simp
  from D h have c2: "spawned (events ?W) = [''echo hello'']"
    unfolding n by simp
  show ?thesis using A B r c1 h c2 by (intro conjI)
qed

end
